theory Spec2Isabelle
  imports Main
begin

section \<open>Tag resource handler: data model\<close>

text \<open>
  The route handlers \<open>GET\<close>, \<open>PATCH\<close> and \<open>DELETE\<close> of
  \<open>/api/admin/tags/[id]\<close> are embedded as functions from the resolved session, the
  path identifier, the request body and the store to a response and the store afterwards.
  Every \<open>await\<close> of the source is a sequential step; every exception thrown inside the
  \<open>try\<close> block is a value \<open>Inl e\<close> that the handler's catch-all turns into the
  500 response.
\<close>

record tag =
  tag_id :: string
  tag_name :: string
  tag_slug :: string

text \<open>
  The result of \<open>auth()\<close>: \<open>None\<close> is \<open>null\<close>; the session's \<open>user\<close> and the
  user's \<open>id\<close> may each be undefined.
\<close>

record user =
  user_id :: "string option"

record session =
  session_user :: "user option"

text \<open>\<open>!session?.user\<close> is false exactly when a session with a user object is present.\<close>

definition has_user :: "session option \<Rightarrow> bool" where
  "has_user s = (case s of None \<Rightarrow> False
                 | Some ss \<Rightarrow> (case session_user ss of None \<Rightarrow> False | Some u \<Rightarrow> True))"

text \<open>JavaScript truthiness of an optional string: undefined and the empty string are falsy.\<close>

definition truthy :: "string option \<Rightarrow> bool" where
  "truthy v = (case v of None \<Rightarrow> False | Some x \<Rightarrow> x \<noteq> [])"

text \<open>\<open>!session?.user?.id\<close> is false exactly when the user carries a truthy identifier.\<close>

definition has_user_id :: "session option \<Rightarrow> bool" where
  "has_user_id s = (case s of None \<Rightarrow> False
                    | Some ss \<Rightarrow> (case session_user ss of None \<Rightarrow> False
                                 | Some u \<Rightarrow> truthy (user_id u)))"

subsection \<open>Persistence client\<close>

text \<open>
  Modelled from the spec: the persistence client \<open>prisma\<close> (\<open>@/lib/prisma\<close>, generated
  from the repository's database schema, which is not among the sources). The store holds
  the tag rows and the post-tag association (pairs of post identifier and tag identifier);
  the post count of a tag is derived at read time. \<open>online\<close> is False when the store
  cannot be reached, and then every query throws. \<open>unique_index\<close> says whether the store
  itself rejects a write that duplicates a name or slug: the sources do not show it, so
  both settings are covered.
\<close>

record db =
  tag_rows :: "tag list"
  post_tag_rows :: "(string \<times> string) list"
  online :: bool
  unique_index :: bool

datatype prisma_error = ConnectionError | RecordNotFound | UniqueViolation

text \<open>The \<open>where\<close> filters that the handlers build.\<close>

datatype filter_tag =
    WId string
  | WName string
  | WSlug string
  | NOT filter_tag
  | AND "filter_tag list"
  | OR "filter_tag list"

fun matches :: "filter_tag \<Rightarrow> tag \<Rightarrow> bool" where
  "matches (WId i) t = (tag_id t = i)"
| "matches (WName n) t = (tag_name t = n)"
| "matches (WSlug s) t = (tag_slug t = s)"
| "matches (NOT w) t = (\<not> matches w t)"
| "matches (AND ws) t = list_all (\<lambda>w. matches w t) ws"
| "matches (OR ws) t = list_ex (\<lambda>w. matches w t) ws"

definition count_posts :: "db \<Rightarrow> string \<Rightarrow> nat" where
  "count_posts d i = length (filter (\<lambda>pt. snd pt = i) (post_tag_rows d))"

text \<open>\<open>prisma.tag.findUnique({ where: { id }, include: { _count: { select: { posts: true } } } })\<close>\<close>

definition findUnique :: "db \<Rightarrow> string \<Rightarrow> prisma_error + (tag \<times> nat) option" where
  "findUnique d i =
     (if \<not> online d then Inl ConnectionError
      else Inr (case find (matches (WId i)) (tag_rows d) of
                  None \<Rightarrow> None
                | Some t \<Rightarrow> Some (t, count_posts d i)))"

text \<open>\<open>prisma.tag.findFirst({ where })\<close>\<close>

definition findFirst :: "db \<Rightarrow> filter_tag \<Rightarrow> prisma_error + tag option" where
  "findFirst d w =
     (if \<not> online d then Inl ConnectionError
      else Inr (find (matches w) (tag_rows d)))"

text \<open>The \<open>Prisma.TagUpdateInput\<close> object: a field left undefined is not written.\<close>

record tag_update_input =
  data_name :: "string option"
  data_slug :: "string option"

definition apply_data :: "tag_update_input \<Rightarrow> tag \<Rightarrow> tag" where
  "apply_data u t =
     t\<lparr>tag_name := (case data_name u of None \<Rightarrow> tag_name t | Some n \<Rightarrow> n),
       tag_slug := (case data_slug u of None \<Rightarrow> tag_slug t | Some s \<Rightarrow> s)\<rparr>"

text \<open>Whether a written name or slug is already the name or slug of another row.\<close>

definition duplicates :: "db \<Rightarrow> string \<Rightarrow> tag_update_input \<Rightarrow> bool" where
  "duplicates d i u =
     list_ex (\<lambda>t. tag_id t \<noteq> i \<and>
                  (data_name u = Some (tag_name t) \<or> data_slug u = Some (tag_slug t)))
             (tag_rows d)"

text \<open>
  \<open>prisma.tag.update({ where: { id }, data, include: { _count: ... } })\<close>: throws when no
  row has the identifier, and when the store enforces uniqueness and a written field
  would duplicate another row's name or slug.
\<close>

definition update_tag :: "db \<Rightarrow> string \<Rightarrow> tag_update_input \<Rightarrow> prisma_error + ((tag \<times> nat) \<times> db)" where
  "update_tag d i u =
     (if \<not> online d then Inl ConnectionError
      else case find (matches (WId i)) (tag_rows d) of
             None \<Rightarrow> Inl RecordNotFound
           | Some t \<Rightarrow>
               if unique_index d \<and> duplicates d i u then Inl UniqueViolation
               else Inr ((apply_data u t, count_posts d i),
                         d\<lparr>tag_rows := map (\<lambda>x. if tag_id x = i then apply_data u x else x) (tag_rows d)\<rparr>))"

text \<open>
  \<open>prisma.tag.delete({ where: { id } })\<close>: throws when no row has the identifier;
  otherwise removes the row and its associations.
\<close>

definition delete_tag :: "db \<Rightarrow> string \<Rightarrow> prisma_error + db" where
  "delete_tag d i =
     (if \<not> online d then Inl ConnectionError
      else case find (matches (WId i)) (tag_rows d) of
             None \<Rightarrow> Inl RecordNotFound
           | Some t \<Rightarrow>
               Inr (d\<lparr>tag_rows := filter (\<lambda>x. tag_id x \<noteq> i) (tag_rows d),
                      post_tag_rows := filter (\<lambda>pt. snd pt \<noteq> i) (post_tag_rows d)\<rparr>))"

subsection \<open>Responses\<close>

text \<open>Field-level validation messages, as \<open>validatedFields.error.format()\<close> reports them.\<close>

type_synonym details = "(string \<times> string list) list"

datatype payload =
    ErrorBody string
  | InvalidBody string details
  | TagBody tag nat
  | MessageBody string

record response =
  status :: nat
  body :: payload

text \<open>\<open>NextResponse.json(body, { status })\<close>; the status defaults to 200.\<close>

definition json :: "payload \<Rightarrow> nat \<Rightarrow> response" where
  "json b s = \<lparr>status = s, body = b\<rparr>"

definition unauthorized :: response where
  "unauthorized = json (ErrorBody ''Unauthorized'') 401"

definition tag_not_found :: response where
  "tag_not_found = json (ErrorBody ''Tag not found'') 404"

definition internal_error :: response where
  "internal_error = json (ErrorBody ''Internal server error'') 500"

section \<open>Tag resource handler: operations\<close>

text \<open>\<open>GET /api/admin/tags/[id]\<close>\<close>

definition GET :: "session option \<Rightarrow> string \<Rightarrow> db \<Rightarrow> response \<times> db" where
  "GET s i d =
     (if \<not> has_user s then (unauthorized, d)
      else case findUnique d i of
             Inl e \<Rightarrow> (internal_error, d)
           | Inr None \<Rightarrow> (tag_not_found, d)
           | Inr (Some (t, n)) \<Rightarrow> (json (TagBody t n) 200, d))"

text \<open>
  The validated fields of an update: \<open>validatedFields.data\<close>. The schema
  \<open>TagUpdateSchema\<close> is not among the sources, so \<open>PATCH\<close> takes its \<open>safeParse\<close> as
  a parameter: \<open>Inl\<close> the formatted errors, \<open>Inr\<close> the data.
\<close>

record tag_fields =
  name :: "string option"
  slug :: "string option"

text \<open>The filter of the uniqueness query, lines 74 to 81.\<close>

definition other_tag_with :: "string \<Rightarrow> string option \<Rightarrow> string option \<Rightarrow> filter_tag" where
  "other_tag_with i n s =
     AND [NOT (WId i),
          OR ((case n of None \<Rightarrow> [] | Some x \<Rightarrow> if x \<noteq> [] then [WName x] else []) @
              (case s of None \<Rightarrow> [] | Some y \<Rightarrow> if y \<noteq> [] then [WSlug y] else []))]"

text \<open>Lines 92 to 108: build \<open>updateData\<close>, write, answer with the updated tag.\<close>

definition PATCH_write :: "string \<Rightarrow> string option \<Rightarrow> string option \<Rightarrow> db \<Rightarrow> response \<times> db" where
  "PATCH_write i n s d =
     (case update_tag d i \<lparr>data_name = n, data_slug = s\<rparr> of
        Inl e \<Rightarrow> (internal_error, d)
      | Inr ((t, c), d') \<Rightarrow> (json (TagBody t c) 200, d'))"

text \<open>
  \<open>PATCH /api/admin/tags/[id]\<close>. The request body is \<open>None\<close> when \<open>request.json()\<close>
  throws (the body is not JSON), which the catch-all reports as 500.
\<close>

definition PATCH ::
  "('b \<Rightarrow> details + tag_fields) \<Rightarrow> session option \<Rightarrow> string \<Rightarrow> 'b option \<Rightarrow> db \<Rightarrow> response \<times> db" where
  "PATCH safeParse s i b d =
     (if \<not> has_user_id s then (unauthorized, d)
      else case b of
             None \<Rightarrow> (internal_error, d)
           | Some j \<Rightarrow>
              (case safeParse j of
                 Inl errs \<Rightarrow> (json (InvalidBody ''Invalid input'' errs) 400, d)
               | Inr v \<Rightarrow>
                   if truthy (name v) \<or> truthy (slug v) then
                     (case findFirst d (other_tag_with i (name v) (slug v)) of
                        Inl e \<Rightarrow> (internal_error, d)
                      | Inr (Some existingTag) \<Rightarrow>
                          (json (ErrorBody ''A tag with this name or slug already exists'') 400, d)
                      | Inr None \<Rightarrow> PATCH_write i (name v) (slug v) d)
                   else PATCH_write i (name v) (slug v) d))"

text \<open>\<open>DELETE /api/admin/tags/[id]\<close>\<close>

definition DELETE :: "session option \<Rightarrow> string \<Rightarrow> db \<Rightarrow> response \<times> db" where
  "DELETE s i d =
     (if \<not> has_user s then (unauthorized, d)
      else case findUnique d i of
             Inl e \<Rightarrow> (internal_error, d)
           | Inr None \<Rightarrow> (tag_not_found, d)
           | Inr (Some (t, n)) \<Rightarrow>
               if n > 0 then (json (ErrorBody ''Cannot delete tag with associated posts'') 400, d)
               else (case delete_tag d i of
                       Inl e \<Rightarrow> (internal_error, d)
                     | Inr d' \<Rightarrow> (json (MessageBody ''Tag deleted successfully'') 200, d')))"

section \<open>Blog listing: the post card\<close>

text \<open>
  A component returns a tree of elements. An element carries the component or tag name,
  its attributes in source order (the \<open>key\<close> among them) and its children; \<open>Null\<close> is
  a child that renders nothing, as \<open>null\<close> does.
\<close>

datatype node =
    El string "(string \<times> string) list" "node list"
  | Txt string
  | Null

text \<open>
  Modelled from the spec: the shapes of \<open>PostCardProps\<close> (\<open>./types\<close> is not among the
  sources). Dates are milliseconds since the epoch.
\<close>

record category =
  category_id :: string
  category_name :: string
  category_slug :: string

record author =
  author_name :: string
  author_image :: "string option"

record post =
  post_id :: string
  title :: string
  post_slug :: string
  excerpt :: "string option"
  publishedAt :: "int option"
  createdAt :: int
  post_author :: author
  categories :: "category list"
  tags :: "tag list"

text \<open>
  \<open>PostCard({ post })\<close>. The helpers \<open>getAuthorInitial\<close> and \<open>formatPostDate\<close> come
  from \<open>./utils\<close>, which is not among the sources, and are parameters.
\<close>

definition PostCard :: "(string \<Rightarrow> string) \<Rightarrow> (int option \<Rightarrow> int \<Rightarrow> string) \<Rightarrow> post \<Rightarrow> node" where
  "PostCard getAuthorInitial formatPostDate p =
     El ''Card''
       [(''className'', ''overflow-hidden hover:shadow-xl transition-all duration-300 border-0 shadow-lg'')]
       [El ''CardHeader'' [(''className'', ''space-y-4'')]
          [El ''div'' [(''className'', ''flex items-center space-x-2'')]
             [El ''Avatar'' [(''className'', ''w-8 h-8'')]
                [El ''AvatarImage''
                   [(''src'', case author_image (post_author p) of None \<Rightarrow> [] | Some u \<Rightarrow> u)] [],
                 El ''AvatarFallback'' [] [Txt (getAuthorInitial (author_name (post_author p)))]],
              El ''div'' [(''className'', ''flex-1 min-w-0'')]
                [El ''p'' [(''className'', ''text-sm text-slate-600 truncate'')]
                   [Txt (author_name (post_author p))],
                 El ''div'' [(''className'', ''flex items-center text-xs text-slate-500'')]
                   [El ''CalendarDays'' [(''className'', ''w-3 h-3 mr-1'')] [],
                    Txt (formatPostDate (publishedAt p) (createdAt p))]]],
           El ''div'' []
             [El ''CardTitle'' [(''className'', ''line-clamp-2 hover:text-primary transition-colors'')]
                [El ''Link'' [(''href'', ''/blog/'' @ post_slug p)] [Txt (title p)]],
              (case excerpt p of
                 None \<Rightarrow> Null
               | Some e \<Rightarrow>
                   if e = [] then Txt []
                   else El ''CardDescription'' [(''className'', ''mt-2 line-clamp-3'')] [Txt e])]],
        El ''CardContent'' [(''className'', ''pt-0'')]
          [El ''div'' [(''className'', ''flex flex-wrap gap-2 mb-4'')]
             (map (\<lambda>category.
                     El ''Badge''
                       [(''key'', category_id category), (''variant'', ''secondary''),
                        (''className'', ''text-xs'')]
                       [Txt (category_name category)])
                  (take 2 (categories p)) @
              map (\<lambda>tag.
                     El ''Badge''
                       [(''key'', tag_id tag), (''variant'', ''outline''), (''className'', ''text-xs'')]
                       [Txt (tag_name tag)])
                  (take 3 (tags p))),
           El ''Link'' [(''href'', ''/blog/'' @ post_slug p)]
             [El ''Button'' [(''variant'', ''ghost''), (''size'', ''sm''), (''className'', ''w-full'')]
                [Txt ''Read More'']]]]"

text \<open>All elements of a tree that have a given name, in document order.\<close>

fun elements_named :: "string \<Rightarrow> node \<Rightarrow> node list" where
  "elements_named n (El c ps ks) =
     (if c = n then [El c ps ks] else []) @ concat (map (elements_named n) ks)"
| "elements_named n (Txt s) = []"
| "elements_named n Null = []"

text \<open>The text directly inside an element.\<close>

fun text_of :: "node \<Rightarrow> string" where
  "text_of (El c ps ks) = concat (map (\<lambda>k. case k of Txt s \<Rightarrow> s | _ \<Rightarrow> []) ks)"
| "text_of (Txt s) = s"
| "text_of Null = []"

fun attribute :: "string \<Rightarrow> node \<Rightarrow> string option" where
  "attribute a (El c ps ks) = map_of ps a"
| "attribute a (Txt s) = None"
| "attribute a Null = None"

text \<open>The badge of one category (lines 123 to 125) and of one tag (lines 128 to 130).\<close>

definition category_badge :: "category \<Rightarrow> node" where
  "category_badge c =
     El ''Badge'' [(''key'', category_id c), (''variant'', ''secondary''), (''className'', ''text-xs'')]
        [Txt (category_name c)]"

definition tag_badge :: "tag \<Rightarrow> node" where
  "tag_badge t =
     El ''Badge'' [(''key'', tag_id t), (''variant'', ''outline''), (''className'', ''text-xs'')]
        [Txt (tag_name t)]"

section \<open>Sample data\<close>

definition admin :: "session option" where
  "admin = Some \<lparr>session_user = Some \<lparr>user_id = Some ''u1''\<rparr>\<rparr>"

definition anonymous_user :: "session option" where
  "anonymous_user = Some \<lparr>session_user = Some \<lparr>user_id = None\<rparr>\<rparr>"

definition rust :: tag where
  "rust = \<lparr>tag_id = ''t1'', tag_name = ''rust'', tag_slug = ''rust''\<rparr>"

definition zig :: tag where
  "zig = \<lparr>tag_id = ''t2'', tag_name = ''zig'', tag_slug = ''zig''\<rparr>"

definition go :: tag where
  "go = \<lparr>tag_id = ''t3'', tag_name = ''go'', tag_slug = ''go''\<rparr>"

definition elixir :: tag where
  "elixir = \<lparr>tag_id = ''t4'', tag_name = ''elixir'', tag_slug = ''elixir''\<rparr>"

text \<open>Three tags; \<open>rust\<close> is attached to two posts, \<open>zig\<close> to one, \<open>go\<close> to none.\<close>

definition store :: db where
  "store = \<lparr>tag_rows = [rust, zig, go],
            post_tag_rows = [(''p1'', ''t1''), (''p2'', ''t1''), (''p2'', ''t2'')],
            online = True, unique_index = False\<rparr>"

text \<open>
  A sample schema over a pair of optional strings: both fields may be omitted, and an
  empty name or slug is refused.
\<close>

definition accept :: "string option \<times> string option \<Rightarrow> details + tag_fields" where
  "accept j =
     (if fst j = Some [] then Inl [(''name'', [''Name is required''])]
      else if snd j = Some [] then Inl [(''slug'', [''Slug is required''])]
      else Inr \<lparr>name = fst j, slug = snd j\<rparr>)"

definition initial :: "string \<Rightarrow> string" where
  "initial n = take 1 n"

definition iso_date :: "int option \<Rightarrow> int \<Rightarrow> string" where
  "iso_date published created = (case published of None \<Rightarrow> ''draft'' | Some t \<Rightarrow> ''published'')"

definition label :: "string \<Rightarrow> category" where
  "label n = \<lparr>category_id = n, category_name = n, category_slug = n\<rparr>"

definition sample_post :: "string option \<Rightarrow> post" where
  "sample_post e =
     \<lparr>post_id = ''p2'', title = ''Systems languages'', post_slug = ''systems-languages'',
      excerpt = e, publishedAt = None, createdAt = 0,
      post_author = \<lparr>author_name = ''Ada'', author_image = None\<rparr>,
      categories = [label ''a'', label ''b'', label ''c''],
      tags = [rust, zig, go, elixir]\<rparr>"

section \<open>Looking a row up by its identifier\<close>

lemma find_id_present:
  assumes "t \<in> set ts" and "tag_id t = i"
  shows "\<exists>t'. find (matches (WId i)) ts = Some t' \<and> t' \<in> set ts \<and> tag_id t' = i"
proof (cases "find (matches (WId i)) ts")
  case None
  with assms show ?thesis by (auto simp: find_None_iff)
next
  case (Some t')
  then show ?thesis by (auto simp: find_Some_iff in_set_conv_nth)
qed

lemma find_id_absent:
  assumes "\<forall>t\<in>set ts. tag_id t \<noteq> i"
  shows "find (matches (WId i)) ts = None"
  using assms by (auto simp: find_None_iff)

section \<open>Delete protection\<close>

text \<open>
  C1. A Delete by a caller whose session carries a user, addressing a tag that is in a
  reachable store and has at least one associated post, answers 400 with the error
  "Cannot delete tag with associated posts" and leaves the store as it was; a Retrieve of
  the same identifier afterwards answers 200 with a stored tag of that identifier and
  its post count.
\<close>

theorem delete_with_posts_is_conflict:
  assumes "has_user s" and "online d" and "t \<in> set (tag_rows d)" and "tag_id t = i"
    and "0 < count_posts d i"
  shows "DELETE s i d = (json (ErrorBody ''Cannot delete tag with associated posts'') 400, d)
       \<and> (\<exists>t'. t' \<in> set (tag_rows d) \<and> tag_id t' = i
              \<and> GET s i (snd (DELETE s i d)) = (json (TagBody t' (count_posts d i)) 200, d))"
proof -
  from find_id_present[OF assms(3,4)] obtain t' where
    f: "find (matches (WId i)) (tag_rows d) = Some t'" and m: "t' \<in> set (tag_rows d)" "tag_id t' = i"
    by blast
  have u: "findUnique d i = Inr (Some (t', count_posts d i))"
    using assms(2) f by (simp add: findUnique_def)
  have del: "DELETE s i d = (json (ErrorBody ''Cannot delete tag with associated posts'') 400, d)"
    using assms(1,5) u by (simp add: DELETE_def)
  have get: "GET s i d = (json (TagBody t' (count_posts d i)) 200, d)"
    using assms(1) u by (simp add: GET_def)
  show ?thesis using del get m by auto
qed

theorem delete_with_posts_is_conflict_witness:
  "DELETE admin ''t1'' store =
     (\<lparr>status = 400, body = ErrorBody ''Cannot delete tag with associated posts''\<rparr>, store)
   \<and> GET admin ''t1'' store = (\<lparr>status = 200, body = TagBody rust 2\<rparr>, store)"
proof -
  have h1: "has_user admin" by (simp add: has_user_def admin_def)
  have h2: "online store" by (simp add: store_def)
  have h3: "rust \<in> set (tag_rows store)" by (simp add: store_def)
  have h4: "tag_id rust = ''t1''" by (simp add: rust_def)
  have h5: "0 < count_posts store ''t1''" by (simp add: count_posts_def store_def)
  have g: "GET admin ''t1'' store = (\<lparr>status = 200, body = TagBody rust 2\<rparr>, store)"
    by (simp add: GET_def findUnique_def has_user_def admin_def store_def rust_def zig_def
        go_def count_posts_def json_def)
  from delete_with_posts_is_conflict[OF h1 h2 h3 h4 h5] g show ?thesis
    by (simp add: json_def)
qed

section \<open>Requests without a session\<close>

text \<open>
  C2. A Retrieve or a Delete whose session carries no user, and an Update whose session
  carries no user identifier, answer 401 and return the store exactly as it was. A
  request with no session at all fails both tests.
\<close>

theorem no_session_is_unauthorized:
  "(\<not> has_user s \<longrightarrow> GET s i d = (unauthorized, d) \<and> DELETE s i d = (unauthorized, d))
   \<and> (\<not> has_user_id s \<longrightarrow> PATCH safeParse s i b d = (unauthorized, d))
   \<and> status unauthorized = 401"
  by (simp add: GET_def DELETE_def PATCH_def unauthorized_def json_def)

theorem no_session_is_unauthorized_witness:
  "\<not> has_user None \<and> \<not> has_user_id None
   \<and> GET None ''t1'' store = (\<lparr>status = 401, body = ErrorBody ''Unauthorized''\<rparr>, store)
   \<and> DELETE None ''t1'' store = (\<lparr>status = 401, body = ErrorBody ''Unauthorized''\<rparr>, store)
   \<and> PATCH accept None ''t1'' (Some (Some ''c'', None)) store
       = (\<lparr>status = 401, body = ErrorBody ''Unauthorized''\<rparr>, store)"
  using no_session_is_unauthorized[of None "''t1''" store accept "Some (Some ''c'', None)"]
  by (simp add: has_user_def has_user_id_def unauthorized_def json_def)

section \<open>Deleting a tag without posts\<close>

text \<open>
  C5. A Delete by a caller whose session carries a user, addressing a tag that is in a
  reachable store and has no associated post, answers 200 with the acknowledgment
  "Tag deleted successfully" and leaves no row with that identifier; a Retrieve of the
  identifier by any caller whose session carries a user then answers 404.
\<close>

theorem delete_without_posts_removes:
  assumes "has_user s" and "online d" and "t \<in> set (tag_rows d)" and "tag_id t = i"
    and "count_posts d i = 0" and "has_user s'"
  shows "fst (DELETE s i d) = json (MessageBody ''Tag deleted successfully'') 200
       \<and> (\<forall>x \<in> set (tag_rows (snd (DELETE s i d))). tag_id x \<noteq> i)
       \<and> GET s' i (snd (DELETE s i d)) = (tag_not_found, snd (DELETE s i d))
       \<and> status tag_not_found = 404"
proof -
  from find_id_present[OF assms(3,4)] obtain t' where
    f: "find (matches (WId i)) (tag_rows d) = Some t'"
    by blast
  define d' where "d' = d\<lparr>tag_rows := filter (\<lambda>x. tag_id x \<noteq> i) (tag_rows d),
                          post_tag_rows := filter (\<lambda>pt. snd pt \<noteq> i) (post_tag_rows d)\<rparr>"
  have u: "findUnique d i = Inr (Some (t', 0))"
    using assms(2,5) f by (simp add: findUnique_def)
  have w: "delete_tag d i = Inr d'"
    using assms(2) f by (simp add: delete_tag_def d'_def)
  have del: "DELETE s i d = (json (MessageBody ''Tag deleted successfully'') 200, d')"
    using assms(1) u w by (simp add: DELETE_def)
  have gone: "\<forall>x \<in> set (tag_rows d'). tag_id x \<noteq> i"
    by (simp add: d'_def)
  have on: "online d'" using assms(2) by (simp add: d'_def)
  have "findUnique d' i = Inr None"
    using on find_id_absent[OF gone] by (simp add: findUnique_def)
  then have get: "GET s' i d' = (tag_not_found, d')"
    using assms(6) by (simp add: GET_def)
  show ?thesis using del gone get by (simp add: tag_not_found_def json_def)
qed

theorem delete_without_posts_removes_witness:
  "fst (DELETE admin ''t3'' store)
     = \<lparr>status = 200, body = MessageBody ''Tag deleted successfully''\<rparr>
   \<and> tag_rows (snd (DELETE admin ''t3'' store)) = [rust, zig]
   \<and> fst (GET anonymous_user ''t3'' (snd (DELETE admin ''t3'' store)))
       = \<lparr>status = 404, body = ErrorBody ''Tag not found''\<rparr>"
proof -
  have h1: "has_user admin" by (simp add: has_user_def admin_def)
  have h2: "online store" by (simp add: store_def)
  have h3: "go \<in> set (tag_rows store)" by (simp add: store_def)
  have h4: "tag_id go = ''t3''" by (simp add: go_def)
  have h5: "count_posts store ''t3'' = 0" by (simp add: count_posts_def store_def)
  have h6: "has_user anonymous_user" by (simp add: has_user_def anonymous_user_def)
  have r: "tag_rows (snd (DELETE admin ''t3'' store)) = [rust, zig]"
    by (simp add: DELETE_def findUnique_def delete_tag_def has_user_def admin_def store_def
        rust_def zig_def go_def count_posts_def json_def)
  from delete_without_posts_removes[OF h1 h2 h3 h4 h5 h6] r show ?thesis
    by (simp add: json_def tag_not_found_def)
qed

section \<open>Retrieving an identifier that is not stored\<close>

text \<open>
  C6. A Retrieve by a caller whose session carries a user, addressing an identifier that
  no stored tag has, answers 404 and not 500, provided the store is reachable.
\<close>

theorem retrieve_missing_is_not_found:
  assumes "has_user s" and "online d" and "\<forall>t \<in> set (tag_rows d). tag_id t \<noteq> i"
  shows "GET s i d = (tag_not_found, d) \<and> status (fst (GET s i d)) = 404
       \<and> status (fst (GET s i d)) \<noteq> 500"
proof -
  have "findUnique d i = Inr None"
    using assms(2) find_id_absent[OF assms(3)] by (simp add: findUnique_def)
  then have "GET s i d = (tag_not_found, d)"
    using assms(1) by (simp add: GET_def)
  then show ?thesis by (simp add: tag_not_found_def json_def)
qed

theorem retrieve_missing_is_not_found_witness:
  "GET admin ''t9'' store = (\<lparr>status = 404, body = ErrorBody ''Tag not found''\<rparr>, store)"
proof -
  have h1: "has_user admin" by (simp add: has_user_def admin_def)
  have h2: "online store" by (simp add: store_def)
  have h3: "\<forall>t \<in> set (tag_rows store). tag_id t \<noteq> ''t9''"
    by (simp add: store_def rust_def zig_def go_def)
  from retrieve_missing_is_not_found[OF h1 h2 h3] show ?thesis
    by (simp add: tag_not_found_def json_def)
qed

section \<open>The session test of each operation\<close>

lemma PATCH_write_status: "status (fst (PATCH_write i n sl d)) \<noteq> 401"
  by (simp add: PATCH_write_def internal_error_def json_def split: sum.splits prod.splits)

text \<open>
  C8. With a session that carries a user object, Retrieve and Delete never answer 401.
  Update answers 401, leaving the store as it was, when that user has no identifier (or
  an empty one), and does not answer 401 when the user has one.
\<close>

theorem authorization_differs_by_operation:
  assumes "session_user ss = Some u"
  shows "status (fst (GET (Some ss) i d)) \<noteq> 401
       \<and> status (fst (DELETE (Some ss) i d)) \<noteq> 401
       \<and> (\<not> truthy (user_id u) \<longrightarrow> PATCH safeParse (Some ss) i b d = (unauthorized, d))
       \<and> (truthy (user_id u) \<longrightarrow> status (fst (PATCH safeParse (Some ss) i b d)) \<noteq> 401)
       \<and> status unauthorized = 401"
proof -
  have hu: "has_user (Some ss)" using assms by (simp add: has_user_def)
  have hid: "has_user_id (Some ss) = truthy (user_id u)" using assms by (simp add: has_user_id_def)
  have g: "status (fst (GET (Some ss) i d)) \<noteq> 401"
    using hu by (simp add: GET_def internal_error_def tag_not_found_def json_def
        split: sum.splits option.splits prod.splits)
  have dl: "status (fst (DELETE (Some ss) i d)) \<noteq> 401"
    using hu by (simp add: DELETE_def internal_error_def tag_not_found_def json_def
        split: sum.splits option.splits prod.splits)
  have p1: "\<not> truthy (user_id u) \<Longrightarrow> PATCH safeParse (Some ss) i b d = (unauthorized, d)"
    using hid by (simp add: PATCH_def)
  have p2: "truthy (user_id u) \<Longrightarrow> status (fst (PATCH safeParse (Some ss) i b d)) \<noteq> 401"
    using hid PATCH_write_status by (simp add: PATCH_def internal_error_def json_def
        split: sum.splits option.splits)
  show ?thesis using g dl p1 p2 by (simp add: unauthorized_def json_def)
qed

theorem authorization_differs_by_operation_witness:
  "fst (GET anonymous_user ''t1'' store) = \<lparr>status = 200, body = TagBody rust 2\<rparr>
   \<and> fst (DELETE anonymous_user ''t3'' store)
       = \<lparr>status = 200, body = MessageBody ''Tag deleted successfully''\<rparr>
   \<and> PATCH accept anonymous_user ''t1'' (Some (None, None)) store
       = (\<lparr>status = 401, body = ErrorBody ''Unauthorized''\<rparr>, store)
   \<and> status (fst (PATCH accept admin ''t1'' (Some (None, None)) store)) \<noteq> 401"
proof -
  have k: "session_user \<lparr>session_user = Some \<lparr>user_id = Some ''u1''\<rparr>\<rparr> = Some \<lparr>user_id = Some ''u1''\<rparr>"
    by simp
  have a: "status (fst (PATCH accept admin ''t1'' (Some (None, None)) store)) \<noteq> 401"
    using authorization_differs_by_operation[OF k, of "''t1''" store accept "Some (None, None)"]
    by (simp add: admin_def truthy_def)
  have h: "session_user \<lparr>session_user = Some \<lparr>user_id = None\<rparr>\<rparr> = Some \<lparr>user_id = None\<rparr>" by simp
  have g: "fst (GET anonymous_user ''t1'' store) = \<lparr>status = 200, body = TagBody rust 2\<rparr>"
    by (simp add: GET_def findUnique_def has_user_def anonymous_user_def store_def rust_def zig_def
        go_def count_posts_def json_def)
  have dl: "fst (DELETE anonymous_user ''t3'' store)
              = \<lparr>status = 200, body = MessageBody ''Tag deleted successfully''\<rparr>"
    by (simp add: DELETE_def findUnique_def delete_tag_def has_user_def anonymous_user_def store_def
        rust_def zig_def go_def count_posts_def json_def)
  from authorization_differs_by_operation[OF h, of "''t1''" store accept "Some (None, None)"] g dl a
  show ?thesis
    by (simp add: anonymous_user_def truthy_def unauthorized_def json_def)
qed

section \<open>Updating a tag\<close>

subsection \<open>The uniqueness query\<close>

lemma find_other_tag:
  assumes "o' \<in> set ts" and "tag_id o' \<noteq> i"
    and "(n = Some (tag_name o') \<and> tag_name o' \<noteq> []) \<or> (sl = Some (tag_slug o') \<and> tag_slug o' \<noteq> [])"
  shows "\<exists>e. find (matches (other_tag_with i n sl)) ts = Some e"
proof -
  have "matches (other_tag_with i n sl) o'"
    using assms(2,3) by (auto simp: other_tag_with_def split: option.splits)
  then have "find (matches (other_tag_with i n sl)) ts \<noteq> None"
    using assms(1) by (auto simp: find_None_iff)
  then show ?thesis by auto
qed

lemma find_no_other_tag:
  assumes "\<not> (\<exists>t \<in> set ts. (n = Some (tag_name t) \<and> tag_name t \<noteq> []) \<or> (sl = Some (tag_slug t) \<and> tag_slug t \<noteq> []))"
  shows "find (matches (other_tag_with i n sl)) ts = None"
  using assms by (auto simp: find_None_iff other_tag_with_def split: option.splits if_splits)

subsection \<open>The write\<close>

lemma PATCH_write_missing:
  assumes "\<forall>t \<in> set (tag_rows d). tag_id t \<noteq> i"
  shows "PATCH_write i n sl d = (internal_error, d)"
  using find_id_absent[OF assms] by (simp add: PATCH_write_def update_tag_def)

lemma PATCH_write_ok:
  assumes "PATCH_write i n sl d = (r, d')" and "status r = 200"
  shows "d' = d\<lparr>tag_rows := map (\<lambda>x. if tag_id x = i then apply_data \<lparr>data_name = n, data_slug = sl\<rparr> x else x) (tag_rows d)\<rparr>"
  using assms by (auto simp: PATCH_write_def update_tag_def internal_error_def json_def
      split: sum.splits if_splits option.splits prod.splits)

lemma PATCH_ok:
  assumes "PATCH safeParse s i b d = (r, d')" and "status r = 200"
  shows "\<exists>j v. b = Some j \<and> safeParse j = Inr v \<and> PATCH_write i (name v) (slug v) d = (r, d')"
  using assms by (auto simp: PATCH_def unauthorized_def internal_error_def json_def
      split: sum.splits if_splits option.splits)

lemma PATCH_write_empty:
  assumes "online d" and "t \<in> set (tag_rows d)" and "tag_id t = i"
  shows "\<exists>t'. t' \<in> set (tag_rows d) \<and> tag_id t' = i
          \<and> PATCH_write i None None d = (json (TagBody t' (count_posts d i)) 200, d)"
proof -
  from find_id_present[OF assms(2,3)] obtain t' where
    f: "find (matches (WId i)) (tag_rows d) = Some t'" and m: "t' \<in> set (tag_rows d)" "tag_id t' = i"
    by blast
  have a: "(\<lambda>x. if tag_id x = i then apply_data \<lparr>data_name = None, data_slug = None\<rparr> x else x)
            = (\<lambda>x. x)"
    by (auto simp: apply_data_def)
  have a': "apply_data \<lparr>data_name = None, data_slug = None\<rparr> t' = t'"
    by (simp add: apply_data_def)
  have nd: "\<not> duplicates d i \<lparr>data_name = None, data_slug = None\<rparr>"
    by (simp add: duplicates_def list_ex_iff)
  have "update_tag d i \<lparr>data_name = None, data_slug = None\<rparr> = Inr ((t', count_posts d i), d)"
    using assms(1) f nd by (simp add: update_tag_def a a')
  then have "PATCH_write i None None d = (json (TagBody t' (count_posts d i)) 200, d)"
    by (simp add: PATCH_write_def)
  with m show ?thesis by blast
qed

subsection \<open>Duplicate names and slugs\<close>



subsection \<open>Partial update\<close>

text \<open>
  C4. When an Update answers 200, its body was parsed and validated, the identifiers of
  all rows and the post associations are as before, every row with another identifier is
  as before, the names are as before when the body has no name, the slugs are as before
  when the body has no slug, and the whole store is as before when the body has neither.
  An Update with neither field, by a caller whose session carries a user identifier,
  addressing a tag in a reachable store, answers 200 with that tag and its post count
  and leaves the store as it was.
\<close>

theorem update_changes_only_supplied_fields:
  "(PATCH safeParse s i b d = (r, d') \<and> status r = 200 \<longrightarrow>
      (\<exists>j v. b = Some j \<and> safeParse j = Inr v
         \<and> map tag_id (tag_rows d') = map tag_id (tag_rows d)
         \<and> (name v = None \<longrightarrow> map tag_name (tag_rows d') = map tag_name (tag_rows d))
         \<and> (slug v = None \<longrightarrow> map tag_slug (tag_rows d') = map tag_slug (tag_rows d))
         \<and> filter (\<lambda>x. tag_id x \<noteq> i) (tag_rows d') = filter (\<lambda>x. tag_id x \<noteq> i) (tag_rows d)
         \<and> post_tag_rows d' = post_tag_rows d
         \<and> (name v = None \<and> slug v = None \<longrightarrow> d' = d)))
   \<and> (has_user_id s \<and> online d \<and> t \<in> set (tag_rows d) \<and> tag_id t = i
        \<and> safeParse j0 = Inr \<lparr>name = None, slug = None\<rparr> \<longrightarrow>
      (\<exists>t'. t' \<in> set (tag_rows d) \<and> tag_id t' = i
         \<and> PATCH safeParse s i (Some j0) d = (json (TagBody t' (count_posts d i)) 200, d))
      \<and> status (fst (PATCH safeParse s i (Some j0) d)) = 200)"
proof (intro conjI impI)
  assume h: "PATCH safeParse s i b d = (r, d') \<and> status r = 200"
  from PATCH_ok[of safeParse s i b d r d'] h obtain j v where
    b: "b = Some j" "safeParse j = Inr v" and w: "PATCH_write i (name v) (slug v) d = (r, d')"
    by blast
  let ?f = "\<lambda>x. if tag_id x = i then apply_data \<lparr>data_name = name v, data_slug = slug v\<rparr> x else x"
  from PATCH_write_ok[OF w] h have d': "d' = d\<lparr>tag_rows := map ?f (tag_rows d)\<rparr>" by blast
  have 1: "map tag_id (tag_rows d') = map tag_id (tag_rows d)"
    unfolding d' by (simp add: apply_data_def)
  have 2: "name v = None \<longrightarrow> map tag_name (tag_rows d') = map tag_name (tag_rows d)"
    unfolding d' by (simp add: apply_data_def)
  have 3: "slug v = None \<longrightarrow> map tag_slug (tag_rows d') = map tag_slug (tag_rows d)"
    unfolding d' by (simp add: apply_data_def)
  have "filter (\<lambda>x. tag_id x \<noteq> i) (map ?f xs) = filter (\<lambda>x. tag_id x \<noteq> i) xs" for xs
    by (induction xs) (simp_all add: apply_data_def)
  then have 4: "filter (\<lambda>x. tag_id x \<noteq> i) (tag_rows d') = filter (\<lambda>x. tag_id x \<noteq> i) (tag_rows d)"
    unfolding d' by simp
  have 5: "post_tag_rows d' = post_tag_rows d" unfolding d' by simp
  have 6: "name v = None \<and> slug v = None \<longrightarrow> d' = d"
  proof
    assume "name v = None \<and> slug v = None"
    then have "?f = (\<lambda>x. x)" by (auto simp: apply_data_def)
    then show "d' = d" unfolding d' by simp
  qed
  from b 1 2 3 4 5 6 show "\<exists>j v. b = Some j \<and> safeParse j = Inr v
         \<and> map tag_id (tag_rows d') = map tag_id (tag_rows d)
         \<and> (name v = None \<longrightarrow> map tag_name (tag_rows d') = map tag_name (tag_rows d))
         \<and> (slug v = None \<longrightarrow> map tag_slug (tag_rows d') = map tag_slug (tag_rows d))
         \<and> filter (\<lambda>x. tag_id x \<noteq> i) (tag_rows d') = filter (\<lambda>x. tag_id x \<noteq> i) (tag_rows d)
         \<and> post_tag_rows d' = post_tag_rows d
         \<and> (name v = None \<and> slug v = None \<longrightarrow> d' = d)"
    by - (rule exI[of _ j], rule exI[of _ v], (rule conjI, assumption)+, assumption)
next
  assume h: "has_user_id s \<and> online d \<and> t \<in> set (tag_rows d) \<and> tag_id t = i
        \<and> safeParse j0 = Inr \<lparr>name = None, slug = None\<rparr>"
  then obtain t' where t': "t' \<in> set (tag_rows d)" "tag_id t' = i"
    "PATCH_write i None None d = (json (TagBody t' (count_posts d i)) 200, d)"
    using PATCH_write_empty[of d t i] by blast
  have p: "PATCH safeParse s i (Some j0) d = (json (TagBody t' (count_posts d i)) 200, d)"
    using h t'(3) by (simp add: PATCH_def truthy_def)
  from t' p show "\<exists>t'. t' \<in> set (tag_rows d) \<and> tag_id t' = i
         \<and> PATCH safeParse s i (Some j0) d = (json (TagBody t' (count_posts d i)) 200, d)"
    by blast
  from p show "status (fst (PATCH safeParse s i (Some j0) d)) = 200" by (simp add: json_def)
qed

theorem update_changes_only_supplied_fields_witness:
  "status (fst (PATCH accept admin ''t2'' (Some (None, Some ''zag'')) store)) = 200
   \<and> map tag_name (tag_rows (snd (PATCH accept admin ''t2'' (Some (None, Some ''zag'')) store)))
       = [''rust'', ''zig'', ''go'']
   \<and> map tag_slug (tag_rows (snd (PATCH accept admin ''t2'' (Some (None, Some ''zag'')) store)))
       = [''rust'', ''zag'', ''go'']
   \<and> PATCH accept admin ''t2'' (Some (None, None)) store
       = (\<lparr>status = 200, body = TagBody zig 1\<rparr>, store)"
proof -
  let ?p = "PATCH accept admin ''t2'' (Some (None, Some ''zag'')) store"
  have e: "?p = (\<lparr>status = 200, body = TagBody \<lparr>tag_id = ''t2'', tag_name = ''zig'', tag_slug = ''zag''\<rparr> 1\<rparr>,
                 store\<lparr>tag_rows := [rust, \<lparr>tag_id = ''t2'', tag_name = ''zig'', tag_slug = ''zag''\<rparr>, go]\<rparr>)"
    by (simp add: PATCH_def PATCH_write_def findFirst_def other_tag_with_def update_tag_def
        duplicates_def apply_data_def count_posts_def has_user_id_def truthy_def admin_def
        accept_def store_def rust_def zig_def go_def json_def)
  have h1: "?p = (fst ?p, snd ?p) \<and> status (fst ?p) = 200" by (simp add: e)
  have h2: "has_user_id admin \<and> online store \<and> zig \<in> set (tag_rows store) \<and> tag_id zig = ''t2''
        \<and> accept (None, None) = Inr \<lparr>name = None, slug = None\<rparr>"
    by (simp add: has_user_id_def admin_def truthy_def store_def zig_def accept_def)
  have n: "map tag_name (tag_rows store) = [''rust'', ''zig'', ''go'']"
    by (simp add: store_def rust_def zig_def go_def)
  have s: "map tag_slug (tag_rows (snd ?p)) = [''rust'', ''zag'', ''go'']"
    by (simp add: e rust_def go_def)
  have c: "count_posts store ''t2'' = 1" by (simp add: count_posts_def store_def)
  have u: "t' \<in> set (tag_rows store) \<Longrightarrow> tag_id t' = ''t2'' \<Longrightarrow> t' = zig" for t'
    by (auto simp: store_def rust_def zig_def go_def)
  from update_changes_only_supplied_fields[of accept admin "''t2''" "Some (None, Some ''zag'')" store
      "fst ?p" "snd ?p" zig "(None, None)"] h1 h2
  have "map tag_name (tag_rows (snd ?p)) = map tag_name (tag_rows store)
      \<and> (\<exists>t'. t' \<in> set (tag_rows store) \<and> tag_id t' = ''t2''
           \<and> PATCH accept admin ''t2'' (Some (None, None)) store
              = (json (TagBody t' (count_posts store ''t2'')) 200, store))"
    by (auto simp: accept_def)
  with n s c u h1 show ?thesis by (auto simp: json_def)
qed

subsection \<open>Updating an identifier that is not stored\<close>

text \<open>
  C7, as amended. An Update by a caller whose session carries a user identifier, with a
  validated body, addressing an identifier that no stored tag has, never answers 404 and
  leaves the store as it was. It answers 400 when the store is reachable and the body
  supplies a non-empty name or slug that a stored tag has; in every other case it
  answers 500, the failure of the persistence update (no such row) being caught by the
  catch-all.
\<close>

theorem update_missing_is_never_not_found:
  assumes "has_user_id s" and "safeParse j = Inr v" and "\<forall>t \<in> set (tag_rows d). tag_id t \<noteq> i"
  shows "PATCH safeParse s i (Some j) d =
           (if online d \<and> (\<exists>t \<in> set (tag_rows d).
                  (name v = Some (tag_name t) \<and> tag_name t \<noteq> [])
                \<or> (slug v = Some (tag_slug t) \<and> tag_slug t \<noteq> []))
            then json (ErrorBody ''A tag with this name or slug already exists'') 400
            else internal_error, d)
       \<and> status (fst (PATCH safeParse s i (Some j) d)) \<noteq> 404
       \<and> status internal_error = 500"
proof -
  let ?hit = "\<exists>t \<in> set (tag_rows d). (name v = Some (tag_name t) \<and> tag_name t \<noteq> [])
                \<or> (slug v = Some (tag_slug t) \<and> tag_slug t \<noteq> [])"
  note w = PATCH_write_missing[OF assms(3)]
  have eq: "PATCH safeParse s i (Some j) d =
           (if online d \<and> ?hit
            then json (ErrorBody ''A tag with this name or slug already exists'') 400
            else internal_error, d)"
  proof (cases "online d")
    case False
    then show ?thesis using assms(1,2) w by (simp add: PATCH_def findFirst_def)
  next
    case on: True
    show ?thesis
    proof (cases ?hit)
      case True
      then obtain t where t: "t \<in> set (tag_rows d)"
        "(name v = Some (tag_name t) \<and> tag_name t \<noteq> []) \<or> (slug v = Some (tag_slug t) \<and> tag_slug t \<noteq> [])"
        by blast
      from t(1) assms(3) have "tag_id t \<noteq> i" by blast
      from find_other_tag[OF t(1) this t(2)] obtain e where
        "find (matches (other_tag_with i (name v) (slug v))) (tag_rows d) = Some e" by blast
      then have f: "findFirst d (other_tag_with i (name v) (slug v)) = Inr (Some e)"
        using on by (simp add: findFirst_def)
      have "truthy (name v) \<or> truthy (slug v)" using t(2) by (auto simp: truthy_def)
      then show ?thesis using assms(1,2) f on True by (simp add: PATCH_def)
    next
      case False
      from find_no_other_tag[OF False] have
        "findFirst d (other_tag_with i (name v) (slug v)) = Inr None"
        using on by (simp add: findFirst_def)
      then have p: "PATCH safeParse s i (Some j) d = (internal_error, d)"
        using assms(1,2) w by (simp add: PATCH_def)
      from False have "\<not> (online d \<and> ?hit)" by blast
      then show ?thesis unfolding p by (simp only: if_False)
    qed
  qed
  show ?thesis unfolding eq by (simp add: internal_error_def json_def)
qed

theorem update_missing_is_never_not_found_witness:
  "PATCH accept admin ''t9'' (Some (Some ''c'', None)) store
     = (\<lparr>status = 500, body = ErrorBody ''Internal server error''\<rparr>, store)
   \<and> PATCH accept admin ''t9'' (Some (None, Some ''go'')) store
     = (\<lparr>status = 400, body = ErrorBody ''A tag with this name or slug already exists''\<rparr>, store)"
proof -
  have h1: "has_user_id admin" by (simp add: has_user_id_def admin_def truthy_def)
  have h2: "accept (Some ''c'', None) = Inr \<lparr>name = Some ''c'', slug = None\<rparr>"
    by (simp add: accept_def)
  have h2': "accept (None, Some ''go'') = Inr \<lparr>name = None, slug = Some ''go''\<rparr>"
    by (simp add: accept_def)
  have h3: "\<forall>t \<in> set (tag_rows store). tag_id t \<noteq> ''t9''"
    by (simp add: store_def rust_def zig_def go_def)
  have a: "PATCH accept admin ''t9'' (Some (Some ''c'', None)) store
     = (\<lparr>status = 500, body = ErrorBody ''Internal server error''\<rparr>, store)"
    using update_missing_is_never_not_found[where safeParse = accept and j = "(Some ''c'', None)",
        OF h1 h2 h3]
    by (simp add: store_def rust_def zig_def go_def internal_error_def json_def)
  have b: "PATCH accept admin ''t9'' (Some (None, Some ''go'')) store
     = (\<lparr>status = 400, body = ErrorBody ''A tag with this name or slug already exists''\<rparr>, store)"
    using update_missing_is_never_not_found[where safeParse = accept and j = "(None, Some ''go'')",
        OF h1 h2' h3]
    by (simp add: store_def rust_def zig_def go_def internal_error_def json_def)
  from a b show ?thesis by simp
qed

text \<open>
  C7 as stated does not hold when the body collides with a stored tag: the uniqueness
  query runs before the write, so the answer is 400 and not 500.
\<close>

theorem update_missing_with_duplicate_counterexample:
  "has_user_id admin
   \<and> accept (Some ''rust'', None) = Inr \<lparr>name = Some ''rust'', slug = None\<rparr>
   \<and> ''t9'' \<notin> set (map tag_id (tag_rows store))
   \<and> PATCH accept admin ''t9'' (Some (Some ''rust'', None)) store
       = (\<lparr>status = 400, body = ErrorBody ''A tag with this name or slug already exists''\<rparr>, store)"
  by (simp add: PATCH_def findFirst_def other_tag_with_def has_user_id_def truthy_def admin_def
      accept_def store_def rust_def zig_def go_def json_def)

section \<open>The post card\<close>

lemma PostCard_badge_children:
  "map (\<lambda>category.
                     El ''Badge''
                       [(''key'', category_id category), (''variant'', ''secondary''),
                        (''className'', ''text-xs'')]
                       [Txt (category_name category)]) cs = map category_badge cs"
  "map (\<lambda>tag.
                     El ''Badge''
                       [(''key'', tag_id tag), (''variant'', ''outline''), (''className'', ''text-xs'')]
                       [Txt (tag_name tag)]) ts = map tag_badge ts"
  by (simp_all add: category_badge_def tag_badge_def)

lemma badges_of_category_badges:
  "concat (map (elements_named ''Badge'' \<circ> category_badge) cs) = map category_badge cs"
  by (induction cs) (simp_all add: category_badge_def)

lemma badges_of_tag_badges:
  "concat (map (elements_named ''Badge'' \<circ> tag_badge) ts) = map tag_badge ts"
  by (induction ts) (simp_all add: tag_badge_def)

lemma no_description_in_badges:
  "concat (map (elements_named ''CardDescription'' \<circ> category_badge) cs) = []"
  "concat (map (elements_named ''CardDescription'' \<circ> tag_badge) ts) = []"
  by (simp_all add: category_badge_def tag_badge_def)

text \<open>
  C9. Whatever the post, the badges in the rendered card are the badges of its first two
  categories followed by the badges of its first three tags, each in the order
  supplied; so there are at most two category badges and at most three tag badges.
\<close>

theorem post_card_badges:
  "elements_named ''Badge'' (PostCard getAuthorInitial formatPostDate p)
     = map category_badge (take 2 (categories p)) @ map tag_badge (take 3 (tags p))
   \<and> length (filter (\<lambda>b. attribute ''variant'' b = Some ''secondary'')
               (elements_named ''Badge'' (PostCard getAuthorInitial formatPostDate p))) \<le> 2
   \<and> length (filter (\<lambda>b. attribute ''variant'' b = Some ''outline'')
               (elements_named ''Badge'' (PostCard getAuthorInitial formatPostDate p))) \<le> 3"
proof -
  have e: "elements_named ''Badge'' (PostCard getAuthorInitial formatPostDate p)
     = map category_badge (take 2 (categories p)) @ map tag_badge (take 3 (tags p))"
    unfolding PostCard_def PostCard_badge_children
    by (simp add: badges_of_category_badges badges_of_tag_badges split: option.splits)
  have c: "filter (\<lambda>b. attribute ''variant'' b = Some v) (map category_badge cs)
             = (if v = ''secondary'' then map category_badge cs else [])" for v cs
    by (induction cs) (simp_all add: category_badge_def)
  have t: "filter (\<lambda>b. attribute ''variant'' b = Some v) (map tag_badge ts)
             = (if v = ''outline'' then map tag_badge ts else [])" for v ts
    by (induction ts) (simp_all add: tag_badge_def)
  show ?thesis unfolding e by (simp add: c t)
qed

theorem post_card_badges_witness:
  "map text_of (elements_named ''Badge'' (PostCard initial iso_date (sample_post None)))
     = [''a'', ''b'', ''rust'', ''zig'', ''go'']"
  using post_card_badges[where p = "sample_post None" and getAuthorInitial = initial
      and formatPostDate = iso_date]
  by (simp add: sample_post_def category_badge_def tag_badge_def label_def rust_def zig_def go_def)

text \<open>
  C10. For a post whose excerpt is null the rendered card has no description element at
  all; for a post whose excerpt is a non-empty string it has exactly one, holding that
  text.
\<close>

theorem post_card_excerpt:
  "(excerpt p = None \<longrightarrow>
      elements_named ''CardDescription'' (PostCard getAuthorInitial formatPostDate p) = [])
   \<and> (excerpt p = Some e \<and> e \<noteq> [] \<longrightarrow>
        elements_named ''CardDescription'' (PostCard getAuthorInitial formatPostDate p)
          = [El ''CardDescription'' [(''className'', ''mt-2 line-clamp-3'')] [Txt e]])"
  unfolding PostCard_def PostCard_badge_children
  by (simp add: no_description_in_badges)

theorem post_card_excerpt_witness:
  "elements_named ''CardDescription'' (PostCard initial iso_date (sample_post None)) = []
   \<and> map text_of (elements_named ''CardDescription''
                    (PostCard initial iso_date (sample_post (Some ''On Rust and Zig''))))
       = [''On Rust and Zig'']"
  using post_card_excerpt[where p = "sample_post None" and getAuthorInitial = initial
      and formatPostDate = iso_date]
    post_card_excerpt[where p = "sample_post (Some ''On Rust and Zig'')"
      and e = "''On Rust and Zig''" and getAuthorInitial = initial and formatPostDate = iso_date]
  by (simp add: sample_post_def)

end
